theory Spec2Isabelle
  imports Complex_Main "HOL-Library.Sublist"
begin

section \<open>MerViz: the preview pipeline, the fit engine and the export encoder\<close>

text \<open>
  The development embeds the logic of the component \<^verbatim>\<open>App\<close> (the orchestrator and the fit
  engine), of \<^verbatim>\<open>lib/mermaidClient\<close> (the renderer adapter) and of \<^verbatim>\<open>lib/export.ts\<close> (the
  export encoder).

  Conventions of the embedding.
  \<^item> A JavaScript number is a \<^typ>\<open>real\<close>: the arithmetic of the source is read as exact
    arithmetic. Where a value may be \<^verbatim>\<open>NaN\<close> or infinite it is a \<^typ>\<open>real option\<close>, with
    \<open>None\<close> for every non-finite value.
  \<^item> A JavaScript string is a \<^typ>\<open>string\<close>: one \<^typ>\<open>char\<close> per code unit, which covers the
    code units U+0000 to U+00FF. Texts with other code units are outside the model; on
    them \<^verbatim>\<open>toLowerCase\<close> may change the length of a text.
  \<^item> The state updates that one handler makes take effect together.
  \<^item> \<^verbatim>\<open>null\<close> and \<^verbatim>\<open>undefined\<close> are \<open>None\<close>.
  \<^item> The diagram engine, the host's number parsers and the DOM measurements are parameters.
\<close>

subsection \<open>Manual zoom\<close>




subsection \<open>Viewport fit\<close>

text \<open>
  The two boxes that \<^verbatim>\<open>getBoundingClientRect\<close> returns: the preview container and the
  rendered graphic. \<open>None\<close> stands for an element that is not in the document.
\<close>

record rect =
  width :: real
  height :: real

record viewport =
  zoom :: real
  fitToViewport :: bool

text \<open>
  \<^verbatim>\<open>computeFitScale\<close>: nothing happens when fit mode is off or an element is missing;
  otherwise the zoom is overwritten. A zero extent of the graphic gives the ratio 1.
\<close>

definition fitScale :: "rect \<Rightarrow> rect \<Rightarrow> real" where
  "fitScale wrapRect svgRect =
     (let availW = max 0 (width wrapRect - 16 - 16);
          availH = max 0 (height wrapRect - 16 - 16);
          scaleX = (if width svgRect \<noteq> 0 then availW / width svgRect else 1);
          scaleY = (if height svgRect \<noteq> 0 then availH / height svgRect else 1)
      in max (1 / 10) (min 3 (min scaleX scaleY)))"

definition computeFitScale :: "rect option \<Rightarrow> rect option \<Rightarrow> viewport \<Rightarrow> viewport" where
  "computeFitScale wrap svgEl v =
     (if \<not> fitToViewport v then v
      else case wrap of
        None \<Rightarrow> v
      | Some wrapRect \<Rightarrow>
          (case svgEl of
             None \<Rightarrow> v
           | Some svgRect \<Rightarrow> v\<lparr>zoom := fitScale wrapRect svgRect\<rparr>))"

text \<open>The clamp the specification speaks of.\<close>

definition clamp :: "real \<Rightarrow> real \<Rightarrow> real \<Rightarrow> real" where
  "clamp x lo hi = max lo (min hi x)"

subsection \<open>Characters and the string primitives of the host\<close>

text \<open>The class \<^verbatim>\<open>\s\<close> of a regular expression, which is also what \<^verbatim>\<open>trim\<close> strips.\<close>

definition is_space :: "char \<Rightarrow> bool" where
  "is_space c = (c \<in> set [CHR 0x09, CHR 0x0A, CHR 0x0B, CHR 0x0C, CHR 0x0D, CHR 0x20, CHR 0xA0])"

text \<open>The class \<^verbatim>\<open>\w\<close>: letters, digits and the underscore.\<close>

definition is_word :: "char \<Rightarrow> bool" where
  "is_word c =
     (let n = (of_char c :: nat)
      in (48 \<le> n \<and> n \<le> 57) \<or> (65 \<le> n \<and> n \<le> 90) \<or> n = 95 \<or> (97 \<le> n \<and> n \<le> 122))"

text \<open>
  \<^verbatim>\<open>toLowerCase\<close>, one code unit at a time: A to Z, and the capital letters of the
  Latin-1 block (U+00C0 to U+00DE without the multiplication sign U+00D7).
\<close>

definition lower_char :: "char \<Rightarrow> char" where
  "lower_char c =
     (let n = (of_char c :: nat)
      in if (65 \<le> n \<and> n \<le> 90) \<or> (192 \<le> n \<and> n \<le> 222 \<and> n \<noteq> 215) then char_of (n + 32) else c)"

definition toLowerCase :: "string \<Rightarrow> string" where
  "toLowerCase s = map lower_char s"

text \<open>\<^verbatim>\<open>String.prototype.trim\<close>\<close>

definition trim :: "string \<Rightarrow> string" where
  "trim s = rev (dropWhile is_space (rev (dropWhile is_space s)))"



subsection \<open>Normalising line-break tags\<close>

text \<open>
  The regular expression \<^verbatim>\<open>/<br\b[^>]*>/gi\<close> tried at the head of a text: \<^verbatim>\<open><\<close>, then
  \<^verbatim>\<open>b\<close> and \<^verbatim>\<open>r\<close> in either case, a word boundary, and everything up to the first
  \<^verbatim>\<open>>\<close>. The result is the matched text and the text after it.
\<close>

fun br_match :: "string \<Rightarrow> (string \<times> string) option" where
  "br_match (c0 # c1 # c2 # rest) =
     (if c0 = CHR ''<'' \<and> (c1 = CHR ''b'' \<or> c1 = CHR ''B'') \<and> (c2 = CHR ''r'' \<or> c2 = CHR ''R'')
         \<and> (case rest of [] \<Rightarrow> True | d # _ \<Rightarrow> \<not> is_word d)
         \<and> CHR ''>'' \<in> set rest
      then Some (c0 # c1 # c2 # takeWhile (\<lambda>d. d \<noteq> CHR ''>'') rest @ ''>'',
                 tl (dropWhile (\<lambda>d. d \<noteq> CHR ''>'') rest))
      else None)"
| "br_match _ = None"

lemma br_match_shorter: "br_match s = Some (m, r) \<Longrightarrow> length r < length s"
proof (induction s rule: br_match.induct)
  case (1 c0 c1 c2 rest)
  have "length (tl (dropWhile (\<lambda>d. d \<noteq> CHR ''>'') rest)) \<le> length rest"
    using length_dropWhile_le[of "\<lambda>d. d \<noteq> CHR ''>''" rest] by simp
  with 1 show ?case
    by (auto split: if_splits)
qed simp_all

text \<open>
  \<^verbatim>\<open>xml.replace(/<br\b[^>]*>/gi, '<br/>')\<close>: the text is scanned from the left; a match is
  replaced and the scan goes on after it, any other character is copied.
\<close>

function replace_br :: "string \<Rightarrow> string" where
  "replace_br [] = []"
| "replace_br (c # cs) =
     (case br_match (c # cs) of
        Some (m, rest) \<Rightarrow> ''<br/>'' @ replace_br rest
      | None \<Rightarrow> c # replace_br cs)"
  by pat_completeness auto
termination
  by (relation "measure length") (auto dest: br_match_shorter)

text \<open>\<^verbatim>\<open>sanitizeSvg\<close> of the export encoder.\<close>

definition sanitizeSvg :: "string \<Rightarrow> string" where
  "sanitizeSvg xml = (let out = replace_br xml in out)"

subsection \<open>Render configuration\<close>

text \<open>A value of a theme variable: a string or a number.\<close>

datatype tv = Str string | Num int

record theme_preset =
  label :: string
  base :: string
  variables :: "(string \<times> tv) list"


definition CUSTOM_THEMES :: "(string \<times> theme_preset) list" where
  "CUSTOM_THEMES =
   [(''professionalLight'', \<lparr>label = ''Professional Light'', base = ''neutral'', variables =
      [(''background'', Str ''#ffffff''), (''primaryColor'', Str ''#2563eb''),
       (''primaryTextColor'', Str ''#0f172a''), (''primaryBorderColor'', Str ''#cbd5e1''),
       (''lineColor'', Str ''#64748b''), (''textColor'', Str ''#0f172a''),
       (''mainBkg'', Str ''#ffffff''), (''nodeBorder'', Str ''#e2e8f0''),
       (''clusterBkg'', Str ''#f8fafc''), (''clusterBorder'', Str ''#e2e8f0''),
       (''edgeLabelBackground'', Str ''#ffffff''), (''labelBackground'', Str ''#ffffff''),
       (''noteBkgColor'', Str ''#f8fafc''), (''noteBorderColor'', Str ''#e2e8f0''),
       (''tertiaryColor'', Str ''#f1f5f9''), (''tertiaryTextColor'', Str ''#0f172a''),
       (''fontSize'', Str ''16px''), (''edgeFontSize'', Str ''14px''),
       (''nodeBorderRadius'', Num 8), (''padding'', Num 12)]\<rparr>),
    (''midnightBlue'', \<lparr>label = ''Midnight Blue'', base = ''dark'', variables =
      [(''background'', Str ''#0b1220''), (''primaryColor'', Str ''#60a5fa''),
       (''primaryTextColor'', Str ''#e5e7eb''), (''primaryBorderColor'', Str ''#1f2a44''),
       (''lineColor'', Str ''#64748b''), (''textColor'', Str ''#e5e7eb''),
       (''mainBkg'', Str ''#111827''), (''nodeBorder'', Str ''#334155''),
       (''clusterBkg'', Str ''#0f172a''), (''clusterBorder'', Str ''#1f2937''),
       (''edgeLabelBackground'', Str ''#111827''), (''labelBackground'', Str ''#0b1220''),
       (''noteBkgColor'', Str ''#0f172a''), (''noteBorderColor'', Str ''#334155''),
       (''tertiaryColor'', Str ''#1f2937''), (''tertiaryTextColor'', Str ''#e5e7eb''),
       (''fontSize'', Str ''16px''), (''edgeFontSize'', Str ''14px''),
       (''nodeBorderRadius'', Num 8), (''padding'', Num 12)]\<rparr>),
    (''emerald'', \<lparr>label = ''Emerald'', base = ''neutral'', variables =
      [(''background'', Str ''#ffffff''), (''primaryColor'', Str ''#10b981''),
       (''primaryTextColor'', Str ''#064e3b''), (''primaryBorderColor'', Str ''#a7f3d0''),
       (''lineColor'', Str ''#34d399''), (''textColor'', Str ''#0f172a''),
       (''mainBkg'', Str ''#ecfdf5''), (''nodeBorder'', Str ''#a7f3d0''),
       (''clusterBkg'', Str ''#f0fdf4''), (''clusterBorder'', Str ''#a7f3d0''),
       (''edgeLabelBackground'', Str ''#ffffff''), (''labelBackground'', Str ''#ffffff''),
       (''tertiaryColor'', Str ''#d1fae5''), (''tertiaryTextColor'', Str ''#065f46''),
       (''fontSize'', Str ''16px''), (''edgeFontSize'', Str ''14px''),
       (''nodeBorderRadius'', Num 10), (''padding'', Num 12)]\<rparr>),
    (''nord'', \<lparr>label = ''Nord'', base = ''neutral'', variables =
      [(''background'', Str ''#ECEFF4''), (''primaryColor'', Str ''#5E81AC''),
       (''primaryTextColor'', Str ''#2E3440''), (''primaryBorderColor'', Str ''#81A1C1''),
       (''lineColor'', Str ''#88C0D0''), (''textColor'', Str ''#2E3440''),
       (''mainBkg'', Str ''#E5E9F0''), (''nodeBorder'', Str ''#D8DEE9''),
       (''clusterBkg'', Str ''#E5E9F0''), (''clusterBorder'', Str ''#D8DEE9''),
       (''edgeLabelBackground'', Str ''#E5E9F0''), (''labelBackground'', Str ''#ECEFF4''),
       (''tertiaryColor'', Str ''#D8DEE9''), (''tertiaryTextColor'', Str ''#2E3440''),
       (''fontSize'', Str ''16px''), (''edgeFontSize'', Str ''14px''),
       (''nodeBorderRadius'', Num 6), (''padding'', Num 12)]\<rparr>)]"

text \<open>
  The preset table is an object literal, so its prototype is \<^verbatim>\<open>Object.prototype\<close>. These
  are the property names every such object inherits in a standard host.
\<close>

definition Object_prototype_keys :: "string list" where
  "Object_prototype_keys =
     [''constructor'', ''__defineGetter__'', ''__defineSetter__'', ''hasOwnProperty'',
      ''__lookupGetter__'', ''__lookupSetter__'', ''isPrototypeOf'', ''propertyIsEnumerable'',
      ''toString'', ''valueOf'', ''__proto__'', ''toLocaleString'']"

text \<open>
  \<^verbatim>\<open>key in CUSTOM_THEMES\<close>: the operator \<^verbatim>\<open>in\<close> looks at the object's own properties and
  at the inherited ones.
\<close>

definition in_CUSTOM_THEMES :: "string \<Rightarrow> bool" where
  "in_CUSTOM_THEMES key = (key \<in> set (map fst CUSTOM_THEMES) \<or> key \<in> set Object_prototype_keys)"

text \<open>
  The configuration handed to the adapter; the last three fields are optional in the
  interface. The field \<open>theme\<close> is \<open>None\<close> when the expression that computes it
  evaluates to \<^verbatim>\<open>undefined\<close>.
\<close>

record MermaidConfig =
  theme :: "string option"
  themeVariables :: "(string \<times> tv) list option"
  securityLevel :: "string option"
  fontFamily :: "string option"

text \<open>
  The \<^verbatim>\<open>useMemo\<close> that derives the configuration from the theme key and the font. A
  property read on an inherited member (a function, or the prototype itself) yields
  \<^verbatim>\<open>undefined\<close> for \<^verbatim>\<open>.base\<close> and for \<^verbatim>\<open>.variables\<close>, and spreading \<^verbatim>\<open>undefined\<close> adds
  nothing.
\<close>

definition config :: "string \<Rightarrow> string \<Rightarrow> MermaidConfig" where
  "config themeKey font =
     (let isCustom = in_CUSTOM_THEMES themeKey;
          base' = (if isCustom then map_option base (map_of CUSTOM_THEMES themeKey) else Some themeKey);
          baseVars = (if isCustom
                      then (case map_of CUSTOM_THEMES themeKey of Some p \<Rightarrow> variables p | None \<Rightarrow> [])
                      else [])
      in \<lparr>theme = base',
          themeVariables = Some (baseVars @ [(''fontFamily'', Str font)]),
          securityLevel = Some ''strict'',
          fontFamily = Some font\<rparr>)"


subsection \<open>Renderer adapter\<close>

text \<open>The argument of \<^verbatim>\<open>mermaid.initialize\<close>.\<close>

record mermaid_options =
  startOnLoad :: bool
  opt_theme :: "string option"
  opt_themeVariables :: "(string \<times> tv) list option"
  opt_securityLevel :: string
  opt_fontFamily :: "string option"
  htmlLabels :: bool
  flowchart_htmlLabels :: bool

definition options_of :: "MermaidConfig \<Rightarrow> mermaid_options" where
  "options_of cfg =
     \<lparr>startOnLoad = False,
      opt_theme = theme cfg,
      opt_themeVariables = themeVariables cfg,
      opt_securityLevel = (case securityLevel cfg of None \<Rightarrow> ''strict'' | Some l \<Rightarrow> l),
      opt_fontFamily = fontFamily cfg,
      htmlLabels = False,
      flowchart_htmlLabels = False\<rparr>"

text \<open>
  A thrown value (the reason of a rejected promise): its \<^verbatim>\<open>message\<close> property, \<open>None\<close> when
  the value is nullish or has none, and what \<^verbatim>\<open>String(e)\<close> makes of it.
\<close>

record thrown =
  message :: "string option"
  as_string :: string

text \<open>\<^verbatim>\<open>new Error(msg)\<close>\<close>

definition new_Error :: "string \<Rightarrow> thrown" where
  "new_Error msg = \<lparr>message = Some msg, as_string = (if msg = [] then ''Error'' else ''Error: '' @ msg)\<rparr>"

text \<open>
  The diagram engine is a parameter: what \<^verbatim>\<open>mermaid.parse(code)\<close> and
  \<^verbatim>\<open>mermaid.render(id, code)\<close> do under the options last set. \<open>parse\<close> gives \<open>None\<close> when
  the text is valid and the thrown value otherwise; \<open>render\<close> gives the markup or the
  thrown value.
\<close>

record engine =
  parse :: "mermaid_options \<Rightarrow> string \<Rightarrow> thrown option"
  render :: "mermaid_options \<Rightarrow> string \<Rightarrow> string \<Rightarrow> thrown + string"

text \<open>The calls the adapter makes to the engine are logged in order.\<close>

datatype engine_call = Initialize mermaid_options | Parse string | Render string string

record adapter =
  initialized :: bool
  calls :: "engine_call list"

definition new_adapter :: adapter where
  "new_adapter = \<lparr>initialized = False, calls = []\<rparr>"

definition init :: "MermaidConfig \<Rightarrow> adapter \<Rightarrow> adapter" where
  "init cfg a =
     (if initialized a then a
      else a\<lparr>calls := calls a @ [Initialize (options_of cfg)], initialized := True\<rparr>)"

text \<open>
  \<^verbatim>\<open>renderMermaid\<close>. The argument \<open>rnd\<close> is the text that
  \<^verbatim>\<open>Math.random().toString(36).slice(2)\<close> yields. The result is the rejection (\<open>Inl\<close>) or the
  markup (\<open>Inr\<close>), with the adapter after the call.
\<close>

definition renderMermaid ::
  "engine \<Rightarrow> string \<Rightarrow> string \<Rightarrow> MermaidConfig \<Rightarrow> adapter \<Rightarrow> (thrown + string) \<times> adapter" where
  "renderMermaid eng rnd code cfg a =
     (let a1 = (if \<not> initialized a then init cfg a else a);
          a2 = a1\<lparr>calls := calls a1 @ [Initialize (options_of cfg)]\<rparr>;
          a3 = a2\<lparr>calls := calls a2 @ [Parse code]\<rparr>
      in case parse eng (options_of cfg) code of
           Some err \<Rightarrow>
             (let msg = (case message err of
                           None \<Rightarrow> ''Mermaid parse error''
                         | Some m \<Rightarrow> if m = [] then ''Mermaid parse error'' else m)
              in (Inl (new_Error msg), a3))
         | None \<Rightarrow>
             (let id = ''merviz-'' @ rnd;
                  a4 = a3\<lparr>calls := calls a3 @ [Render id code]\<rparr>
              in case render eng (options_of cfg) id code of
                   Inl e \<Rightarrow> (Inl e, a4)
                 | Inr svg \<Rightarrow> (let sanitized = replace_br svg in (Inr sanitized, a4))))"

subsection \<open>The render result held by the orchestrator\<close>

record preview =
  svg :: string
  error :: "string option"

definition initial_preview :: preview where
  "initial_preview = \<lparr>svg = [], error = None\<rparr>"

text \<open>
  The two handlers of \<^verbatim>\<open>doRender\<close>: \<^verbatim>\<open>then\<close> for the markup, \<^verbatim>\<open>catch\<close> for a rejection.
  Each sets both fields, \<^verbatim>\<open>setSvg\<close> first and \<^verbatim>\<open>setError\<close> second, as one step.
\<close>

definition settle :: "thrown + string \<Rightarrow> preview \<Rightarrow> preview" where
  "settle r p =
     (case r of
        Inr res \<Rightarrow> p\<lparr>svg := res, error := None\<rparr>
      | Inl e \<Rightarrow> p\<lparr>svg := [], error := Some (case message e of Some m \<Rightarrow> m | None \<Rightarrow> as_string e)\<rparr>)"

definition doRender ::
  "engine \<Rightarrow> string \<Rightarrow> string \<Rightarrow> MermaidConfig \<Rightarrow> adapter \<times> preview \<Rightarrow> adapter \<times> preview" where
  "doRender eng rnd code cfg s =
     (let (r, a') = renderMermaid eng rnd code cfg (fst s) in (a', settle r (snd s)))"

text \<open>The states the adapter and the render result can be in: any number of render cycles.\<close>

inductive reachable :: "adapter \<times> preview \<Rightarrow> bool" where
  start: "reachable (new_adapter, initial_preview)"
| cycle: "reachable s \<Longrightarrow> reachable (doRender eng rnd code cfg s)"

subsection \<open>Line-break tags in a markup\<close>





subsection \<open>Export encoder\<close>

text \<open>What \<^verbatim>\<open>downloadSvg\<close> offers for download: the blob and the file name.\<close>

record download =
  content :: string
  mime :: string
  filename :: string

definition downloadSvg :: "string \<Rightarrow> string \<Rightarrow> download" where
  "downloadSvg svg' name =
     (let content' = sanitizeSvg svg'
      in \<lparr>content = content', mime = ''image/svg+xml;charset=utf-8'', filename = name\<rparr>)"

text \<open>
  The host's number parsers are parameters: \<^verbatim>\<open>Number(s)\<close> and \<^verbatim>\<open>parseFloat(s)\<close>, with
  \<open>None\<close> for a result that is not finite.
\<close>

record host =
  toNumber :: "string \<Rightarrow> real option"
  parseFloat :: "string \<Rightarrow> real option"

text \<open>\<^verbatim>\<open>s.split(/\s+/)\<close>: the pieces between the maximal runs of whitespace.\<close>

function split_ws :: "string \<Rightarrow> string list" where
  "split_ws s =
     (let tok = takeWhile (\<lambda>c. \<not> is_space c) s; rest = dropWhile (\<lambda>c. \<not> is_space c) s
      in if rest = [] then [tok] else tok # split_ws (dropWhile is_space rest))"
  by pat_completeness auto
termination
proof (relation "measure length", goal_cases)
  case 1
  show ?case by simp
next
  case (2 s tok rest)
  then obtain c cs where rest: "rest = c # cs" and "is_space c"
    by (metis (mono_tags, lifting) dropWhile_eq_Cons_conv neq_Nil_conv)
  have "length (dropWhile is_space rest) \<le> length cs"
    using rest \<open>is_space c\<close> by (simp add: length_dropWhile_le)
  moreover have "length rest \<le> length s"
    using 2 by (simp add: length_dropWhile_le)
  ultimately show ?case
    using rest by simp
qed

declare split_ws.simps [simp del]

text \<open>
  The common tail of the three attribute patterns, \<^verbatim>\<open>\s*=\s*"([^"]+)"\<close>, tried at the head
  of a text: the captured group.
\<close>

definition attr_value :: "string \<Rightarrow> string option" where
  "attr_value s =
     (case dropWhile is_space s of
        [] \<Rightarrow> None
      | e # s1 \<Rightarrow>
          if e \<noteq> CHR ''='' then None
          else (case dropWhile is_space s1 of
                  [] \<Rightarrow> None
                | q # s2 \<Rightarrow>
                    if q \<noteq> CHR 0x22 then None
                    else (let g = takeWhile (\<lambda>c. c \<noteq> CHR 0x22) s2
                          in if g \<noteq> [] \<and> dropWhile (\<lambda>c. c \<noteq> CHR 0x22) s2 \<noteq> [] then Some g
                             else None)))"

text \<open>An attribute name at the head of a text, in any case (flag \<^verbatim>\<open>i\<close>): the text after it.\<close>

definition name_at :: "string \<Rightarrow> string \<Rightarrow> string option" where
  "name_at name s =
     (if length name \<le> length s \<and> toLowerCase (take (length name) s) = toLowerCase name
      then Some (drop (length name) s) else None)"

text \<open>\<^verbatim>\<open>/viewBox\s*=\s*"([^"]+)"/i.exec(svg)\<close>: the group of the leftmost match.\<close>

fun exec_viewBox :: "string \<Rightarrow> string option" where
  "exec_viewBox [] = None"
| "exec_viewBox (c # cs) =
     (case Option.bind (name_at ''viewBox'' (c # cs)) attr_value of
        Some g \<Rightarrow> Some g
      | None \<Rightarrow> exec_viewBox cs)"

text \<open>
  \<^verbatim>\<open>/\bNAME\s*=\s*"([^"]+)"/i.exec(svg)\<close> for \<^verbatim>\<open>width\<close> and \<^verbatim>\<open>height\<close>. The flag says
  whether the character before the head is a word character: the name starts with one,
  so the boundary \<^verbatim>\<open>\b\<close> holds when the one before is none.
\<close>

fun exec_attr :: "string \<Rightarrow> bool \<Rightarrow> string \<Rightarrow> string option" where
  "exec_attr name prev_word [] = None"
| "exec_attr name prev_word (c # cs) =
     (case (if prev_word then None else Option.bind (name_at name (c # cs)) attr_value) of
        Some g \<Rightarrow> Some g
      | None \<Rightarrow> exec_attr name (is_word c) cs)"

definition toPx :: "host \<Rightarrow> string option \<Rightarrow> real option" where
  "toPx h v = (case v of None \<Rightarrow> None | Some v' \<Rightarrow> if v' = [] then None else parseFloat h v')"

text \<open>
  The numbers of a view box: exactly four, all finite, the last two positive; anything
  else falls through to the attributes.
\<close>

fun size_of_parts :: "real option list \<Rightarrow> rect option" where
  "size_of_parts [Some x, Some y, Some w, Some h] =
     (if w > 0 \<and> h > 0 then Some \<lparr>width = w, height = h\<rparr> else None)"
| "size_of_parts _ = None"

text \<open>\<^verbatim>\<open>parseSvgSize\<close>: the view box first, then the attributes \<^verbatim>\<open>width\<close> and \<^verbatim>\<open>height\<close>.\<close>

definition parseSvgSize :: "host \<Rightarrow> string \<Rightarrow> rect option" where
  "parseSvgSize hst svg' =
     (let fromViewBox =
            (case exec_viewBox svg' of
               None \<Rightarrow> None
             | Some g \<Rightarrow> size_of_parts (map (toNumber hst) (split_ws (trim g))))
      in case fromViewBox of
           Some sz \<Rightarrow> Some sz
         | None \<Rightarrow>
             (let wMatch = exec_attr ''width'' False svg';
                  hMatch = exec_attr ''height'' False svg'
              in case (toPx hst wMatch, toPx hst hMatch) of
                   (Some w, Some h) \<Rightarrow>
                     if w > 0 \<and> h > 0 then Some \<lparr>width = w, height = h\<rparr> else None
                 | _ \<Rightarrow> None))"

text \<open>
  \<^verbatim>\<open>downloadPng\<close> up to the allocation of the canvas: the markup handed to the rasteriser,
  the scale, and the extent of the canvas. \<^verbatim>\<open>Math.round\<close> is \<^term>\<open>round\<close>: halves go up.
\<close>

record raster =
  sanitized :: string
  computedScale :: real
  canvas_width :: int
  canvas_height :: int
  png_name :: string

definition downloadPng :: "host \<Rightarrow> string \<Rightarrow> string \<Rightarrow> real option \<Rightarrow> raster" where
  "downloadPng hst svg' name scale =
     (let sanitized' = sanitizeSvg svg';
          sz = (case parseSvgSize hst sanitized' of Some sz' \<Rightarrow> sz' | None \<Rightarrow> \<lparr>width = 800, height = 600\<rparr>);
          baseLongest = max (width sz) (height sz);
          minScale = 3;
          targetLongest = 2000;
          computedScale0 = (case scale of Some sc \<Rightarrow> sc | None \<Rightarrow> max minScale (targetLongest / baseLongest));
          computedScale1 = max (1 / 2) (min 8 computedScale0)
      in \<lparr>sanitized = sanitized',
          computedScale = computedScale1,
          canvas_width = round (width sz * computedScale1),
          canvas_height = round (height sz * computedScale1),
          png_name = name\<rparr>)"

text \<open>The intrinsic size that \<^verbatim>\<open>downloadPng\<close> works with: the parsed one, or 800 by 600.\<close>

definition intrinsic_size :: "host \<Rightarrow> string \<Rightarrow> rect" where
  "intrinsic_size hst svg' =
     (case parseSvgSize hst (sanitizeSvg svg') of Some sz \<Rightarrow> sz | None \<Rightarrow> \<lparr>width = 800, height = 600\<rparr>)"

text \<open>
  The export handlers of the application. \<^verbatim>\<open>onExportPng\<close> has the default argument
  \<^verbatim>\<open>scale = 2\<close>; the menu item calls it without an argument. Nothing is exported while
  there is no graphic.
\<close>

definition onExportSvg :: "string \<Rightarrow> download option" where
  "onExportSvg svg' = (if svg' = [] then None else Some (downloadSvg svg' ''diagram.svg''))"

definition onExportPng :: "host \<Rightarrow> real option \<Rightarrow> string \<Rightarrow> raster option" where
  "onExportPng hst scale svg' =
     (let scale' = (case scale of None \<Rightarrow> 2 | Some sc \<Rightarrow> sc)
      in if svg' = [] then None else Some (downloadPng hst svg' ''diagram.png'' (Some scale')))"

definition menu_png_click :: "host \<Rightarrow> string \<Rightarrow> raster option" where
  "menu_png_click hst svg' = onExportPng hst None svg'"

subsection \<open>Double-click to locate\<close>







subsection \<open>Debounced rendering\<close>

text \<open>
  The part of the application state that the debounce effect depends on, the pending
  timer with the text and configuration its callback will render, and the log of the
  calls of \<^verbatim>\<open>doRender\<close> with their times. Time is counted in the units of the delay.
\<close>

record scheduler =
  code :: string
  themeKey :: string
  font :: string
  autoUpdate :: bool
  timer :: "(nat \<times> string \<times> MermaidConfig) option"
  rendered :: "(nat \<times> string \<times> MermaidConfig) list"

datatype event = SetCode string | SetTheme string | SetFont string | SetAutoUpdate bool | ClickRender

text \<open>Time passes up to \<open>t\<close>: a timer due by then fires and calls \<^verbatim>\<open>doRender\<close>.\<close>

definition fire_due :: "nat \<Rightarrow> scheduler \<Rightarrow> scheduler" where
  "fire_due t s =
     (case timer s of
        None \<Rightarrow> s
      | Some (due, job) \<Rightarrow>
          if due \<le> t then s\<lparr>timer := None, rendered := rendered s @ [(due, job)]\<rparr> else s)"

text \<open>
  The effect with the dependencies \<^verbatim>\<open>[code, config, autoUpdate]\<close>, run at time \<open>t\<close>
  after one of them has changed: the cleanup of the previous run clears its timer, then
  a new timer is set for 250 units later unless auto-update is off.
\<close>

definition effect :: "nat \<Rightarrow> scheduler \<Rightarrow> scheduler" where
  "effect t s =
     (let s' = s\<lparr>timer := None\<rparr>
      in if \<not> autoUpdate s' then s'
         else s'\<lparr>timer := Some (t + 250, code s', config (themeKey s') (font s'))\<rparr>)"

definition apply_event :: "event \<Rightarrow> scheduler \<Rightarrow> scheduler" where
  "apply_event ev s =
     (case ev of
        SetCode c \<Rightarrow> s\<lparr>code := c\<rparr>
      | SetTheme k \<Rightarrow> s\<lparr>themeKey := k\<rparr>
      | SetFont f \<Rightarrow> s\<lparr>font := f\<rparr>
      | SetAutoUpdate b \<Rightarrow> s\<lparr>autoUpdate := b\<rparr>
      | ClickRender \<Rightarrow> s)"

text \<open>
  An event at time \<open>t\<close>. The render button calls \<^verbatim>\<open>doRender\<close> at once. A state update
  re-runs the effect when it changes a dependency; the configuration is memoised on the
  theme key and the font, so it changes when one of them does.
\<close>

definition step :: "nat \<Rightarrow> event \<Rightarrow> scheduler \<Rightarrow> scheduler" where
  "step t ev s =
     (let s0 = fire_due t s
      in case ev of
           ClickRender \<Rightarrow> s0\<lparr>rendered := rendered s0 @ [(t, code s0, config (themeKey s0) (font s0))]\<rparr>
         | _ \<Rightarrow>
             (let s1 = apply_event ev s0
              in if (code s1, themeKey s1, font s1, autoUpdate s1) = (code s0, themeKey s0, font s0, autoUpdate s0)
                 then s1
                 else effect t s1))"

subsection \<open>Fixtures for the examples\<close>

text \<open>The calls of the engine's render step in a log.\<close>

definition is_Render :: "engine_call \<Rightarrow> bool" where
  "is_Render c = (case c of Render i s \<Rightarrow> True | _ \<Rightarrow> False)"

text \<open>
  An engine for the examples: it accepts the one text \<^verbatim>\<open>graph\<close> and rejects every other
  with a message; its markup has a line break and a horizontal rule in the HTML form.
\<close>

definition sample_engine :: engine where
  "sample_engine =
     \<lparr>parse = (\<lambda>opts code. if code = ''graph'' then None
                else Some \<lparr>message = Some ''Parse error on line 1'',
                           as_string = ''Error: Parse error on line 1''\<rparr>),
      render = (\<lambda>opts id code. Inr ''<svg>a<br>b<hr></svg>'')\<rparr>"

text \<open>A host for the examples, right on the numerals it knows.\<close>

definition sample_host :: host where
  "sample_host =
     \<lparr>toNumber = (\<lambda>s. if s = ''0'' then Some 0 else if s = ''800'' then Some 800
                   else if s = ''600'' then Some 600 else None),
      parseFloat = (\<lambda>s. if s = ''400'' then Some 400 else if s = ''300px'' then Some 300 else None)\<rparr>"

section \<open>Properties\<close>








text \<open>
  C6: for content of positive intrinsic size the fit scale is
  \<open>min (availW / w) (availH / h)\<close> clamped to [0.1, 3.0], where \<open>availW\<close> and \<open>availH\<close>
  are the container's extents less 16 pixels of padding on each side; a container that
  shrinks on both axes never gets a larger fit scale.
\<close>

theorem C6_fit_scale:
  assumes "0 < width svgRect" and "0 < height svgRect"
  shows "fitScale wrapRect svgRect =
           clamp (min ((width wrapRect - 2 * 16) / width svgRect)
                      ((height wrapRect - 2 * 16) / height svgRect)) (1 / 10) 3
         \<and> (fitToViewport v \<longrightarrow>
              zoom (computeFitScale (Some wrapRect) (Some svgRect) v) = fitScale wrapRect svgRect)
         \<and> (width wrapRect' \<le> width wrapRect \<and> height wrapRect' \<le> height wrapRect \<longrightarrow>
              fitScale wrapRect' svgRect \<le> fitScale wrapRect svgRect)"
proof -
  let ?w = "width svgRect" and ?h = "height svgRect"
  have pos: "max 0 a / ?w = max 0 (a / ?w)" "max 0 a / ?h = max 0 (a / ?h)" for a
    using assms by (simp_all add: max_def divide_le_0_iff not_le zero_le_divide_iff)
  have 1: "fitScale wrapRect svgRect =
           clamp (min ((width wrapRect - 2 * 16) / ?w) ((height wrapRect - 2 * 16) / ?h)) (1 / 10) 3"
    using assms unfolding fitScale_def clamp_def Let_def
    by (simp add: pos) linarith
  have 2: "zoom (computeFitScale (Some wrapRect) (Some svgRect) v) = fitScale wrapRect svgRect"
    if "fitToViewport v"
    using that by (simp add: computeFitScale_def)
  have 3: "fitScale wrapRect' svgRect \<le> fitScale wrapRect svgRect"
    if le: "width wrapRect' \<le> width wrapRect" "height wrapRect' \<le> height wrapRect"
  proof -
    have "max 0 (width wrapRect' - 16 - 16) / ?w \<le> max 0 (width wrapRect - 16 - 16) / ?w"
      using le assms by (intro divide_right_mono) simp_all
    moreover have "max 0 (height wrapRect' - 16 - 16) / ?h \<le> max 0 (height wrapRect - 16 - 16) / ?h"
      using le assms by (intro divide_right_mono) simp_all
    ultimately show ?thesis
      using assms unfolding fitScale_def Let_def by simp linarith
  qed
  from 1 2 3 show ?thesis
    by blast
qed

theorem C6_fit_scale_witness:
  "0 < width \<lparr>width = 800, height = 600\<rparr> \<and> 0 < height \<lparr>width = 800, height = 600\<rparr>
   \<and> fitToViewport \<lparr>zoom = 1, fitToViewport = True\<rparr>
   \<and> width \<lparr>width = 432, height = 632\<rparr> \<le> width \<lparr>width = 832, height = 632\<rparr>
   \<and> height \<lparr>width = 432, height = 632\<rparr> \<le> height \<lparr>width = 832, height = 632\<rparr>
   \<and> fitScale \<lparr>width = 832, height = 632\<rparr> \<lparr>width = 800, height = 600\<rparr> = 1
   \<and> zoom (computeFitScale (Some \<lparr>width = 832, height = 632\<rparr>)
         (Some \<lparr>width = 800, height = 600\<rparr>) \<lparr>zoom = 1, fitToViewport = True\<rparr>) = 1
   \<and> fitScale \<lparr>width = 432, height = 632\<rparr> \<lparr>width = 800, height = 600\<rparr> \<le> 1"
  using C6_fit_scale[of "\<lparr>width = 800, height = 600\<rparr>" "\<lparr>width = 832, height = 632\<rparr>"
      "\<lparr>zoom = 1, fitToViewport = True\<rparr>" "\<lparr>width = 432, height = 632\<rparr>"]
  by (simp add: clamp_def)

subsection \<open>The theme key restored at startup\<close>




subsection \<open>Facts about the normalisation of line-break tags\<close>














subsection \<open>Renderer adapter and export sanitisation\<close>

text \<open>
  C2: when the engine's validation rejects the text, \<^verbatim>\<open>renderMermaid\<close> rejects with an
  error whose message is the message of the validation failure, or
  \<^verbatim>\<open>Mermaid parse error\<close> when that is missing or empty; the engine's render step is not
  called (the log gains no \<open>Render\<close> entry), so no markup is produced.
\<close>

theorem C2_invalid_source_rejected:
  assumes "parse eng (options_of cfg) src = Some err"
  shows "fst (renderMermaid eng rnd src cfg a) =
           Inl (new_Error (case message err of
                             None \<Rightarrow> ''Mermaid parse error''
                           | Some m \<Rightarrow> if m = [] then ''Mermaid parse error'' else m))
         \<and> filter is_Render (calls (snd (renderMermaid eng rnd src cfg a))) = filter is_Render (calls a)
         \<and> calls (snd (renderMermaid eng rnd src cfg a)) =
             calls (if initialized a then a else init cfg a) @ [Initialize (options_of cfg), Parse src]
         \<and> message (new_Error msg) = Some msg"
  using assms
  by (simp add: renderMermaid_def init_def Let_def is_Render_def new_Error_def)

theorem C2_invalid_source_rejected_witness:
  "parse sample_engine (options_of (config ''default'' ''Inter'')) ''grph'' =
     Some \<lparr>message = Some ''Parse error on line 1'', as_string = ''Error: Parse error on line 1''\<rparr>
   \<and> fst (renderMermaid sample_engine ''k3x'' ''grph'' (config ''default'' ''Inter'') new_adapter) =
       Inl (new_Error ''Parse error on line 1'')
   \<and> filter is_Render
        (calls (snd (renderMermaid sample_engine ''k3x'' ''grph'' (config ''default'' ''Inter'') new_adapter))) = []"
proof -
  have h: "parse sample_engine (options_of (config ''default'' ''Inter'')) ''grph'' =
     Some \<lparr>message = Some ''Parse error on line 1'', as_string = ''Error: Parse error on line 1''\<rparr>"
    by (simp add: sample_engine_def)
  from h C2_invalid_source_rejected[OF h, of "''k3x''" new_adapter] show ?thesis
    by (simp add: new_adapter_def init_def is_Render_def)
qed




subsection \<open>The render result\<close>

lemma settle_exclusive: "\<not> (svg (settle r p) \<noteq> [] \<and> error (settle r p) \<noteq> None)"
  by (simp add: settle_def split: sum.splits)

text \<open>
  C5 (as the claim states it, refuted): in the initial state, which is reachable, neither
  the graphic nor the error is populated, so it is not the case that exactly one is.
\<close>

theorem C5_initial_counterexample:
  "reachable (new_adapter, initial_preview)
   \<and> svg (snd (new_adapter, initial_preview)) = [] \<and> error (snd (new_adapter, initial_preview)) = None"
proof -
  have "reachable (new_adapter, initial_preview)"
    by (rule reachable.start)
  then show ?thesis
    by (simp add: initial_preview_def)
qed

text \<open>
  C5 (amended): at any time at most one of the two fields is populated. A render cycle
  that fails stores the error message and clears the graphic, a cycle that succeeds
  stores the graphic and clears the error, and in no reachable state, the initial one
  included, are graphic and error populated together.
\<close>

theorem C5_never_both:
  assumes "reachable s"
  shows "\<not> (svg (snd s) \<noteq> [] \<and> error (snd s) \<noteq> None)
    \<and> (\<forall>e. fst (renderMermaid eng rnd src cfg (fst s)) = Inl e \<longrightarrow>
          svg (snd (doRender eng rnd src cfg s)) = []
          \<and> error (snd (doRender eng rnd src cfg s)) =
              Some (case message e of Some m \<Rightarrow> m | None \<Rightarrow> as_string e))
    \<and> (\<forall>g. fst (renderMermaid eng rnd src cfg (fst s)) = Inr g \<longrightarrow>
          svg (snd (doRender eng rnd src cfg s)) = g
          \<and> error (snd (doRender eng rnd src cfg s)) = None)"
proof -
  from assms have "\<not> (svg (snd s) \<noteq> [] \<and> error (snd s) \<noteq> None)"
  proof (induction rule: reachable.induct)
    case start
    show ?case by (simp add: initial_preview_def)
  next
    case (cycle s eng rnd src cfg)
    show ?case
      using settle_exclusive by (simp add: doRender_def split: prod.splits)
  qed
  moreover have "snd (doRender eng rnd src cfg s) =
      settle (fst (renderMermaid eng rnd src cfg (fst s))) (snd s)"
    by (simp add: doRender_def split: prod.splits)
  ultimately show ?thesis
    by (simp add: settle_def)
qed

theorem C5_never_both_witness:
  "reachable (doRender sample_engine ''k3x'' ''graph'' (config ''default'' ''Inter'') (new_adapter, initial_preview))
   \<and> fst (renderMermaid sample_engine ''a1'' ''grph'' (config ''default'' ''Inter'')
        (fst (doRender sample_engine ''k3x'' ''graph'' (config ''default'' ''Inter'') (new_adapter, initial_preview))))
      = Inl (new_Error ''Parse error on line 1'')
   \<and> svg (snd (doRender sample_engine ''k3x'' ''graph'' (config ''default'' ''Inter'')
        (new_adapter, initial_preview))) = ''<svg>a<br/>b<hr></svg>''
   \<and> error (snd (doRender sample_engine ''k3x'' ''graph'' (config ''default'' ''Inter'')
        (new_adapter, initial_preview))) = None
   \<and> svg (snd (doRender sample_engine ''a1'' ''grph'' (config ''default'' ''Inter'')
        (doRender sample_engine ''k3x'' ''graph'' (config ''default'' ''Inter'') (new_adapter, initial_preview)))) = []
   \<and> error (snd (doRender sample_engine ''a1'' ''grph'' (config ''default'' ''Inter'')
        (doRender sample_engine ''k3x'' ''graph'' (config ''default'' ''Inter'') (new_adapter, initial_preview))))
      = Some ''Parse error on line 1''"
proof -
  let ?cfg = "config ''default'' ''Inter''"
  let ?s = "doRender sample_engine ''k3x'' ''graph'' ?cfg (new_adapter, initial_preview)"
  have r: "reachable ?s"
    by (intro reachable.cycle reachable.start)
  have s: "svg (snd ?s) = ''<svg>a<br/>b<hr></svg>''" "error (snd ?s) = None"
    by (simp_all add: doRender_def renderMermaid_def sample_engine_def Let_def settle_def is_word_def)
  have f: "fst (renderMermaid sample_engine ''a1'' ''grph'' ?cfg (fst ?s)) = Inl (new_Error ''Parse error on line 1'')"
    by (simp add: renderMermaid_def sample_engine_def Let_def)
  from C5_never_both[OF r, of sample_engine "''a1''" "''grph''" ?cfg] f
  have "svg (snd (doRender sample_engine ''a1'' ''grph'' ?cfg ?s)) = []"
    and "error (snd (doRender sample_engine ''a1'' ''grph'' ?cfg ?s)) = Some ''Parse error on line 1''"
    by (simp_all add: new_Error_def)
  with r s f show ?thesis
    by blast
qed

subsection \<open>Raster sizing\<close>




lemma downloadPng_scale:
  "computedScale (downloadPng hst x name scale) =
     clamp (case scale of Some sc \<Rightarrow> sc
            | None \<Rightarrow> max 3 (2000 / max (width (intrinsic_size hst x)) (height (intrinsic_size hst x))))
       (1 / 2) 8"
  by (simp add: downloadPng_def intrinsic_size_def clamp_def Let_def split: option.splits)

lemma downloadPng_canvas:
  "canvas_width (downloadPng hst x name scale) =
     round (width (intrinsic_size hst x) * computedScale (downloadPng hst x name scale))
   \<and> canvas_height (downloadPng hst x name scale) =
     round (height (intrinsic_size hst x) * computedScale (downloadPng hst x name scale))"
  by (simp add: downloadPng_def intrinsic_size_def Let_def)



text \<open>
  C9: the export menu calls \<^verbatim>\<open>onExportPng\<close> without an argument, so the encoder gets the
  explicit scale 2, which the clamp to [0.5, 8] leaves as it is: the canvas is twice the
  intrinsic size, whatever that is. The automatic scale is at least 3, so it is never
  the one a menu export uses.
\<close>

theorem C9_menu_export_scale:
  assumes "x \<noteq> []"
  shows "menu_png_click hst x = Some (downloadPng hst x ''diagram.png'' (Some 2))
         \<and> computedScale (downloadPng hst x ''diagram.png'' (Some 2)) = 2
         \<and> canvas_width (downloadPng hst x ''diagram.png'' (Some 2)) = round (width (intrinsic_size hst x) * 2)
         \<and> canvas_height (downloadPng hst x ''diagram.png'' (Some 2)) = round (height (intrinsic_size hst x) * 2)
         \<and> 3 \<le> computedScale (downloadPng hst x ''diagram.png'' None)"
proof -
  have "menu_png_click hst x = Some (downloadPng hst x ''diagram.png'' (Some 2))"
    using assms by (simp add: menu_png_click_def onExportPng_def)
  moreover have 2: "computedScale (downloadPng hst x ''diagram.png'' (Some 2)) = 2"
    by (simp add: downloadPng_scale clamp_def)
  moreover have "3 \<le> computedScale (downloadPng hst x ''diagram.png'' None)"
    by (simp add: downloadPng_scale clamp_def)
  ultimately show ?thesis
    using downloadPng_canvas[of hst x "''diagram.png''" "Some 2"] by simp
qed

theorem C9_menu_export_scale_witness:
  "''<svg viewBox=\"0 0 800 600\" width=\"400\">'' \<noteq> []
   \<and> map_option computedScale (menu_png_click sample_host ''<svg viewBox=\"0 0 800 600\" width=\"400\">'') = Some 2
   \<and> map_option canvas_width (menu_png_click sample_host ''<svg viewBox=\"0 0 800 600\" width=\"400\">'') = Some 1600
   \<and> map_option canvas_height (menu_png_click sample_host ''<svg viewBox=\"0 0 800 600\" width=\"400\">'') = Some 1200"
proof -
  have h: "''<svg viewBox=\"0 0 800 600\" width=\"400\">'' \<noteq> []"
    by simp
  have "intrinsic_size sample_host ''<svg viewBox=\"0 0 800 600\" width=\"400\">'' = \<lparr>width = 800, height = 600\<rparr>"
    by code_simp
  with h C9_menu_export_scale[OF h, of sample_host] show ?thesis
    by simp
qed

subsection \<open>Debounce\<close>

lemma step_change:
  assumes "autoUpdate s" and "ev = SetCode txt \<and> txt \<noteq> code s \<or> ev = SetTheme k \<and> k \<noteq> themeKey s
      \<or> ev = SetFont f \<and> f \<noteq> font s"
  shows "timer (step t ev s) =
           Some (t + 250, code (apply_event ev s), config (themeKey (apply_event ev s)) (font (apply_event ev s)))"
    and "rendered (step t ev s) = rendered (fire_due t s)"
    and "autoUpdate (step t ev s)"
    and "code (step t ev s) = code (apply_event ev s)"
    and "themeKey (step t ev s) = themeKey (apply_event ev s)"
    and "font (step t ev s) = font (apply_event ev s)"
  using assms
  by (auto simp: step_def fire_due_def effect_def apply_event_def Let_def split: option.splits)

text \<open>
  C4: with auto-update on, a change of the text, the theme or the font at time \<open>t\<close>
  replaces whatever timer is pending by one due at \<open>t + 250\<close> that will render the new
  state; the replaced timer never fires. So when nothing is due at time 0 and the text
  is edited at 0, 100 and 150, the only render up to any later time \<open>T\<close> is the one at
  time 400, and it renders the text of the edit at 150.
\<close>

theorem C4_debounce:
  assumes "autoUpdate s"
  shows "(ev = SetCode txt \<and> txt \<noteq> code s \<or> ev = SetTheme k \<and> k \<noteq> themeKey s
            \<or> ev = SetFont f \<and> f \<noteq> font s \<longrightarrow>
          timer (step t ev s) =
            Some (t + 250, code (apply_event ev s), config (themeKey (apply_event ev s)) (font (apply_event ev s)))
          \<and> rendered (step t ev s) = rendered (fire_due t s))
    \<and> (a \<noteq> code s \<and> b \<noteq> a \<and> c \<noteq> b \<and> (case timer s of None \<Rightarrow> True | Some (due, job) \<Rightarrow> 0 < due) \<longrightarrow>
          rendered (fire_due T (step 150 (SetCode c) (step 100 (SetCode b) (step 0 (SetCode a) s)))) =
            rendered s @ (if 400 \<le> T then [(400, c, config (themeKey s) (font s))] else []))"
proof -
  have general: "timer (step t ev s) =
            Some (t + 250, code (apply_event ev s), config (themeKey (apply_event ev s)) (font (apply_event ev s)))
          \<and> rendered (step t ev s) = rendered (fire_due t s)"
    if "ev = SetCode txt \<and> txt \<noteq> code s \<or> ev = SetTheme k \<and> k \<noteq> themeKey s
            \<or> ev = SetFont f \<and> f \<noteq> font s"
    using step_change(1,2)[OF assms that] by simp
  have scenario: "rendered (fire_due T (step 150 (SetCode c) (step 100 (SetCode b) (step 0 (SetCode a) s)))) =
            rendered s @ (if 400 \<le> T then [(400, c, config (themeKey s) (font s))] else [])"
    if h: "a \<noteq> code s" "b \<noteq> a" "c \<noteq> b" "case timer s of None \<Rightarrow> True | Some (due, job) \<Rightarrow> 0 < due"
  proof -
    let ?s1 = "step 0 (SetCode a) s" and ?s2 = "step 100 (SetCode b) (step 0 (SetCode a) s)"
    let ?s3 = "step 150 (SetCode c) (step 100 (SetCode b) (step 0 (SetCode a) s))"
    have s1: "timer ?s1 = Some (250, a, config (themeKey s) (font s))" "rendered ?s1 = rendered s"
      "autoUpdate ?s1" "code ?s1 = a" "themeKey ?s1 = themeKey s" "font ?s1 = font s"
      using step_change[of s "SetCode a" a _ _ 0] assms h
      by (auto simp: apply_event_def fire_due_def split: option.splits)
    have s2: "timer ?s2 = Some (350, b, config (themeKey s) (font s))" "rendered ?s2 = rendered s"
      "autoUpdate ?s2" "code ?s2 = b" "themeKey ?s2 = themeKey s" "font ?s2 = font s"
      using step_change[of ?s1 "SetCode b" b _ _ 100] s1 h
      by (auto simp: apply_event_def fire_due_def)
    have s3: "timer ?s3 = Some (400, c, config (themeKey s) (font s))" "rendered ?s3 = rendered s"
      using step_change[of ?s2 "SetCode c" c _ _ 150] s2 h
      by (auto simp: apply_event_def fire_due_def)
    then show ?thesis
      by (simp add: fire_due_def)
  qed
  from general scenario show ?thesis
    by blast
qed

theorem C4_debounce_witness:
  "autoUpdate \<lparr>code = ''g'', themeKey = ''default'', font = ''Inter'', autoUpdate = True,
      timer = None, rendered = []\<rparr>
   \<and> rendered (fire_due 1000 (step 150 (SetCode ''graph'') (step 100 (SetCode ''grap'') (step 0 (SetCode ''gra'')
       \<lparr>code = ''g'', themeKey = ''default'', font = ''Inter'', autoUpdate = True,
        timer = None, rendered = []\<rparr>)))) = [(400, ''graph'', config ''default'' ''Inter'')]
   \<and> rendered (fire_due 399 (step 150 (SetCode ''graph'') (step 100 (SetCode ''grap'') (step 0 (SetCode ''gra'')
       \<lparr>code = ''g'', themeKey = ''default'', font = ''Inter'', autoUpdate = True,
        timer = None, rendered = []\<rparr>)))) = []"
  using C4_debounce[where s = "\<lparr>code = ''g'', themeKey = ''default'', font = ''Inter'', autoUpdate = True,
      timer = None, rendered = []\<rparr>" and a = "''gra''" and b = "''grap''" and c = "''graph''" and T = 1000]
    C4_debounce[where s = "\<lparr>code = ''g'', themeKey = ''default'', font = ''Inter'', autoUpdate = True,
      timer = None, rendered = []\<rparr>" and a = "''gra''" and b = "''grap''" and c = "''graph''" and T = 399]
  by simp

subsection \<open>Double-click to locate\<close>











end
